theory Spec2Isabelle
  imports Complex_Main
begin

section \<open>Values of the JavaScript runtime\<close>

text \<open>
  A JavaScript \<open>number\<close> is a double: a finite value, given here by the real number it
  denotes (\<open>Finite 0\<close> is the positive zero), the negative zero, \<open>NaN\<close> or one of the two
  infinities. The amount of a transaction is such a number; it is supplied by the caller
  and never inspected.

  The numbers the program computes itself (the nonce, the timestamp, the mining counter)
  are integers, and every integer of magnitude at most \<open>2^53\<close> is a double. They are
  modelled as \<open>int\<close>; where the source adds two of them, the model follows the double
  sum, which is the integer sum as long as that stays within \<open>2^53\<close>.
\<close>

datatype number = Finite real | NegZero | NaN | Infinity | NegInfinity

text \<open>
  A call either returns the new state, or throws, or never returns (the mining loop has no
  bound). The only write of the program, the \<open>push\<close> in \<open>addBlock\<close>, is the last
  statement of its call, so a call that throws has changed nothing.
\<close>

datatype js_error = TypeError | ProviderError

datatype 'a outcome = Returns 'a | Throws js_error | Diverges

subsection \<open>Number to string\<close>

definition digit_char :: "nat \<Rightarrow> char" where
  "digit_char d = ''0123456789'' ! d"

fun digits10 :: "nat \<Rightarrow> string" where
  "digits10 n = (if n < 10 then [digit_char n] else digits10 (n div 10) @ [digit_char (n mod 10)])"

declare digits10.simps [simp del]

text \<open>\<open>Number.prototype.toString()\<close> on an integer: decimal digits, a leading minus sign.\<close>

definition int_toString :: "int \<Rightarrow> string" where
  "int_toString i = (if i < 0 then CHR ''-'' # digits10 (nat (- i)) else digits10 (nat i))"

subsection \<open>\<open>JSON.stringify\<close> on the objects of this program\<close>

definition hex_char :: "nat \<Rightarrow> char" where
  "hex_char d = ''0123456789abcdef'' ! d"

text \<open>
  One code unit inside a quoted JSON string: the short escapes, \<open>\u00xx\<close> for the other
  control characters, the character itself otherwise. \<open>0x22\<close> is the double quote and
  \<open>0x5C\<close> the backslash.
\<close>

definition JSON_escape :: "char \<Rightarrow> string" where
  "JSON_escape c =
     (if c = CHR 0x08 then [CHR 0x5C, CHR ''b'']
      else if c = CHR 0x09 then [CHR 0x5C, CHR ''t'']
      else if c = CHR 0x0A then [CHR 0x5C, CHR ''n'']
      else if c = CHR 0x0C then [CHR 0x5C, CHR ''f'']
      else if c = CHR 0x0D then [CHR 0x5C, CHR ''r'']
      else if c = CHR 0x22 then [CHR 0x5C, CHR 0x22]
      else if c = CHR 0x5C then [CHR 0x5C, CHR 0x5C]
      else if (of_char c :: nat) < 32
        then [CHR 0x5C, CHR ''u'', CHR ''0'', CHR ''0'',
              hex_char (of_char c div 16), hex_char (of_char c mod 16)]
      else [c])"

definition JSON_quote :: "string \<Rightarrow> string" where
  "JSON_quote s = CHR 0x22 # concat (map JSON_escape s) @ [CHR 0x22]"

definition JSON_member :: "string \<Rightarrow> string \<Rightarrow> string" where
  "JSON_member k v = JSON_quote k @ '':'' @ v"

fun JSON_join :: "string list \<Rightarrow> string" where
  "JSON_join [] = []"
| "JSON_join [m] = m"
| "JSON_join (m # ms) = m @ '','' @ JSON_join ms"

definition JSON_object :: "string list \<Rightarrow> string" where
  "JSON_object members = ''{'' @ JSON_join members @ ''}''"

section \<open>What the runtime provides\<close>

text \<open>
  Node's \<open>crypto\<close> module is not part of the repository. Its four services used here are
  parameters of the model: the hex digest of \<open>createHash('SHA256')\<close> and of
  \<open>createHash('MD5')\<close>, and \<open>createSign('SHA256')\<close> / \<open>createVerify('SHA256')\<close>,
  which throw on key material they cannot use.

  So is the double arithmetic of the language where it is not plain integer arithmetic:
  \<open>Number_add\<close> is the sum of two doubles rounded to a double, and \<open>Number_toString\<close>
  is the string of a finite double, the shortest decimal that reads back as the same
  double. The model calls them outside the integers of magnitude at most \<open>2^53\<close> only;
  on these a sum that stays in the range is the integer sum and the string is the decimal
  expansion, and both are written out.
\<close>

record provider =
  createHash_SHA256 :: "string \<Rightarrow> string"
  createHash_MD5 :: "string \<Rightarrow> string"
  createSign_SHA256 :: "string \<Rightarrow> string \<Rightarrow> js_error + string"
  createVerify_SHA256 :: "string \<Rightarrow> string \<Rightarrow> string \<Rightarrow> js_error + bool"
  Number_add :: "real \<Rightarrow> real \<Rightarrow> real"
  Number_toString :: "real \<Rightarrow> string"

text \<open>
  A number inside \<open>JSON.stringify\<close>: a finite number is written by its string, both
  zeros as \<open>0\<close>, and \<open>NaN\<close> and the infinities as \<open>null\<close>.
\<close>

definition JSON_number :: "provider \<Rightarrow> number \<Rightarrow> string" where
  "JSON_number P x =
     (case x of
        Finite r \<Rightarrow>
          if r = of_int \<lfloor>r\<rfloor> \<and> \<bar>r\<bar> \<le> 2 ^ 53 then int_toString \<lfloor>r\<rfloor>
          else Number_toString P r
      | NegZero \<Rightarrow> ''0''
      | NaN \<Rightarrow> ''null''
      | Infinity \<Rightarrow> ''null''
      | NegInfinity \<Rightarrow> ''null'')"

section \<open>Transaction\<close>

record Transaction =
  amount :: number
  payer :: string
  payee :: string

text \<open>\<open>toString()\<close> is \<open>JSON.stringify(this)\<close>: the own properties in creation order.\<close>

definition toString :: "provider \<Rightarrow> Transaction \<Rightarrow> string" where
  "toString P t = JSON_object
     [JSON_member ''amount'' (JSON_number P (amount t)),
      JSON_member ''payer'' (JSON_quote (payer t)),
      JSON_member ''payee'' (JSON_quote (payee t))]"

section \<open>Block\<close>

record Block =
  prevHash :: string
  transaction :: Transaction
  ts :: int
  nonce :: int

text \<open>
  The constructor takes \<open>prevHash\<close> and \<open>transaction\<close>; \<open>ts\<close> defaults to
  \<open>Date.now()\<close> and \<open>nonce\<close> is \<open>Math.round(Math.random() * 999999999)\<close>, an integer
  from 0 to 999999999. The clock reading \<open>now\<close> and the rounded random number \<open>rnd\<close>
  are inputs of the model; both are integers far below \<open>2^53\<close>, which
  \<open>JSON.stringify\<close> writes as their decimal digits. The parameter properties are
  assigned before the initialised field, which is the order in which \<open>JSON.stringify\<close>
  then writes them.
\<close>

definition Block_constructor :: "string \<Rightarrow> Transaction \<Rightarrow> int \<Rightarrow> int \<Rightarrow> Block" where
  "Block_constructor prevHash' transaction' now rnd =
     \<lparr>prevHash = prevHash', transaction = transaction', ts = now, nonce = rnd\<rparr>"

definition JSON_stringify_Block :: "provider \<Rightarrow> Block \<Rightarrow> string" where
  "JSON_stringify_Block P b = JSON_object
     [JSON_member ''prevHash'' (JSON_quote (prevHash b)),
      JSON_member ''transaction'' (toString P (transaction b)),
      JSON_member ''ts'' (int_toString (ts b)),
      JSON_member ''nonce'' (int_toString (nonce b))]"

text \<open>The \<open>hash\<close> getter: a fresh SHA-256 over the serialised block at each read.\<close>

definition hash :: "provider \<Rightarrow> Block \<Rightarrow> string" where
  "hash P b = (let str = JSON_stringify_Block P b in createHash_SHA256 P str)"

section \<open>Chain\<close>

record Chain =
  chain :: "Block list"

definition Chain_constructor :: "int \<Rightarrow> int \<Rightarrow> Chain" where
  "Chain_constructor now rnd =
     \<lparr>chain = [Block_constructor ''''
        \<lparr>amount = Finite 100, payer = ''genesis'', payee = ''satoshi''\<rparr> now rnd]\<rparr>"

text \<open>
  \<open>this.chain[this.chain.length - 1]\<close>: an index outside the array reads \<open>undefined\<close>,
  which is \<open>None\<close> here.
\<close>

definition lastBlock :: "Chain \<Rightarrow> Block option" where
  "lastBlock c =
     (let i = int (length (chain c)) - 1
      in if 0 \<le> i \<and> i < int (length (chain c)) then Some (chain c ! nat i) else None)"

text \<open>
  The test of the mining loop on one candidate: the MD5 hex digest of
  \<open>(nonce + solution).toString()\<close> starts with \<open>0000\<close>. A seed is an integral double.
  While the integer sum stays within \<open>2^53\<close> it is the double sum and its string is its
  decimal expansion; beyond, the sum is rounded and its string is the runtime's.
\<close>

definition attempt :: "provider \<Rightarrow> int \<Rightarrow> int \<Rightarrow> string" where
  "attempt P nonce' solution = createHash_MD5 P
     (if \<bar>nonce' + solution\<bar> \<le> 2 ^ 53 then int_toString (nonce' + solution)
      else Number_toString P (Number_add P (of_int nonce') (of_int solution)))"

definition solved :: "provider \<Rightarrow> int \<Rightarrow> int \<Rightarrow> bool" where
  "solved P nonce' solution = (take 4 (attempt P nonce' solution) = ''0000'')"

text \<open>
  The \<open>while(true)\<close> loop of \<open>mine\<close>; \<open>None\<close> is the loop that never exits. The counter
  starts at 1, and \<open>solution += 1\<close> is exact up to \<open>2^53\<close>; there \<open>2^53 + 1\<close> rounds back
  to \<open>2^53\<close> and the counter stays.
\<close>

partial_function (option) mine_loop :: "provider \<Rightarrow> int \<Rightarrow> int \<Rightarrow> int option" where
  "mine_loop prov nonce' solution =
     (if take 4 (attempt prov nonce' solution) = ''0000'' then Some solution
      else mine_loop prov nonce' (if solution < 2 ^ 53 then solution + 1 else solution))"

declare mine_loop.simps [code]

definition mine :: "provider \<Rightarrow> int \<Rightarrow> int option" where
  "mine P nonce' = mine_loop P nonce' 1"

text \<open>
  \<open>addBlock\<close>: verify the signature over \<open>transaction.toString()\<close>; when it is valid,
  build the block on the hash of the last block (reading \<open>.hash\<close> of \<open>undefined\<close> throws
  a \<open>TypeError\<close>), call \<open>mine\<close> on its nonce, dropping what it returns, and push the
  block.
\<close>

definition addBlock ::
  "provider \<Rightarrow> Chain \<Rightarrow> Transaction \<Rightarrow> string \<Rightarrow> string \<Rightarrow> int \<Rightarrow> int \<Rightarrow> Chain outcome" where
  "addBlock P c transaction' senderPublicKey signature now rnd =
     (case createVerify_SHA256 P senderPublicKey (toString P transaction') signature of
        Inl e \<Rightarrow> Throws e
      | Inr isValid \<Rightarrow>
          if isValid then
            (case lastBlock c of
               None \<Rightarrow> Throws TypeError
             | Some lb \<Rightarrow>
                 let newBlock = Block_constructor (hash P lb) transaction' now rnd
                 in (case mine P (nonce newBlock) of
                       None \<Rightarrow> Diverges
                     | Some _ \<Rightarrow> Returns (c\<lparr>chain := chain c @ [newBlock]\<rparr>)))
          else Returns c)"

section \<open>Wallet\<close>

record Wallet =
  publicKey :: string
  privateKey :: string

text \<open>
  \<open>sendMoney\<close> builds the transaction with the wallet's public key as payer, signs its
  \<open>toString()\<close> with the private key and hands both to \<open>addBlock\<close> of the one chain.
\<close>

definition sendMoney ::
  "provider \<Rightarrow> Wallet \<Rightarrow> number \<Rightarrow> string \<Rightarrow> Chain \<Rightarrow> int \<Rightarrow> int \<Rightarrow> Chain outcome" where
  "sendMoney P w amount' payeePublicKey c now rnd =
     (let transaction' = \<lparr>amount = amount', payer = publicKey w, payee = payeePublicKey\<rparr>
      in case createSign_SHA256 P (privateKey w) (toString P transaction') of
           Inl e \<Rightarrow> Throws e
         | Inr signature \<Rightarrow> addBlock P c transaction' (publicKey w) signature now rnd)"

section \<open>Reachable chains\<close>

text \<open>
  The states of the chain that the class itself produces: the constructor's, and every
  state a returning \<open>addBlock\<close> leaves.
\<close>

inductive reachable :: "provider \<Rightarrow> Chain \<Rightarrow> bool" for P :: provider where
  reachable_init: "reachable P (Chain_constructor now rnd)"
| reachable_addBlock:
    "reachable P c \<Longrightarrow> addBlock P c transaction' senderPublicKey signature now rnd = Returns c'
       \<Longrightarrow> reachable P c'"

section \<open>The chain invariants\<close>

text \<open>Each block after the first stores the hash of its predecessor.\<close>

definition linked :: "provider \<Rightarrow> Block list \<Rightarrow> bool" where
  "linked P bs = (\<forall>i \<in> {1..<length bs}. prevHash (bs ! i) = hash P (bs ! (i - 1)))"

text \<open>The chain is not empty and its first block has the empty \<open>prevHash\<close>.\<close>

definition genesis_ok :: "Block list \<Rightarrow> bool" where
  "genesis_ok bs = (1 \<le> length bs \<and> prevHash (bs ! 0) = [])"

section \<open>A provider for evaluation\<close>

text \<open>
  A small instance of the provider, with the interface of the real one and none of its
  security, on which the definitions above evaluate: its MD5 meets the target on the
  strings \<open>3\<close> and \<open>5\<close> only, a signature is the key followed by the message, and the
  empty key is one it cannot use. Its numbers are added as reals and written as the
  decimal digits of their integral part.
\<close>

definition demo_provider :: provider where
  "demo_provider =
     \<lparr>createHash_SHA256 = (\<lambda>str. ''5e'' @ int_toString (int (length str))),
      createHash_MD5 = (\<lambda>str. if str = ''3'' \<or> str = ''5'' then ''0000aa'' else ''c4ca42''),
      createSign_SHA256 =
        (\<lambda>key msg. if key = [] then Inl ProviderError else Inr (key @ '':'' @ msg)),
      createVerify_SHA256 =
        (\<lambda>key msg sg. if key = [] then Inl ProviderError else Inr (sg = key @ '':'' @ msg)),
      Number_add = (\<lambda>x y. x + y),
      Number_toString = (\<lambda>r. int_toString \<lfloor>r\<rfloor>)\<rparr>"

definition demo_transaction :: Transaction where
  "demo_transaction = \<lparr>amount = Finite 50, payer = ''alice'', payee = ''bob''\<rparr>"

definition demo_chain :: Chain where
  "demo_chain = Chain_constructor 1000 7"

definition demo_signature :: string where
  "demo_signature = ''alice:'' @ toString demo_provider demo_transaction"

text \<open>The chain that admitting \<open>demo_transaction\<close> at time 2000 with nonce 0 leaves.\<close>

definition demo_chain2 :: Chain where
  "demo_chain2 = \<lparr>chain = chain demo_chain @
     [Block_constructor (hash demo_provider (last (chain demo_chain))) demo_transaction 2000 0]\<rparr>"

definition demo_wallet :: Wallet where
  "demo_wallet = \<lparr>publicKey = ''alice'', privateKey = ''alice''\<rparr>"

text \<open>A transaction whose amount is not a finite number, and its signature by \<open>demo_wallet\<close>.\<close>

definition demo_nan_transaction :: Transaction where
  "demo_nan_transaction = \<lparr>amount = NaN, payer = ''alice'', payee = ''bob''\<rparr>"

definition demo_nan_signature :: string where
  "demo_nan_signature = ''alice:'' @ toString demo_provider demo_nan_transaction"

section \<open>The canonical encoding\<close>













text \<open>Where the encoding of an amount loses the amount.\<close>

lemma JSON_number_lossy:
  "JSON_number P Infinity = JSON_number P NaN"
  "JSON_number P NegInfinity = JSON_number P NaN"
  "JSON_number P NegZero = JSON_number P (Finite 0)"
  by (simp_all add: JSON_number_def int_toString_def digits10.simps digit_char_def)

text \<open>
  A change of the amount between two of these leaves the encoding of the transaction, and
  with it the verdict of any verification, as it was.
\<close>

lemma toString_lossy:
  "toString P (t\<lparr>amount := Infinity\<rparr>) = toString P (t\<lparr>amount := NaN\<rparr>)"
  "toString P (t\<lparr>amount := NegInfinity\<rparr>) = toString P (t\<lparr>amount := NaN\<rparr>)"
  "toString P (t\<lparr>amount := NegZero\<rparr>) = toString P (t\<lparr>amount := Finite 0\<rparr>)"
  by (simp_all add: toString_def JSON_number_lossy)

lemma lossy_amount_same_verdict:
  "createVerify_SHA256 P key (toString P (t\<lparr>amount := Infinity\<rparr>)) sg
     = createVerify_SHA256 P key (toString P (t\<lparr>amount := NaN\<rparr>)) sg"
  "createVerify_SHA256 P key (toString P (t\<lparr>amount := NegZero\<rparr>)) sg
     = createVerify_SHA256 P key (toString P (t\<lparr>amount := Finite 0\<rparr>)) sg"
  by (simp_all only: toString_lossy)















section \<open>The accessor and the mining loop\<close>

lemma lastBlock_eq: "lastBlock c = (if chain c = [] then None else Some (last (chain c)))"
proof (cases "chain c = []")
  case True
  then show ?thesis by (simp add: lastBlock_def)
next
  case False
  then have "0 < length (chain c)" by simp
  then have "nat (int (length (chain c)) - 1) = length (chain c) - 1" by simp
  with False show ?thesis by (simp add: lastBlock_def Let_def last_conv_nth)
qed

lemma mine_loop_unfold:
  "mine_loop P n k =
     (if solved P n k then Some k else mine_loop P n (if k < 2 ^ 53 then k + 1 else k))"
  by (subst mine_loop.simps) (simp add: solved_def)

lemma mine_loop_sound:
  assumes "mine_loop P n k = Some s"
  shows "k \<le> s \<and> (k \<le> 2 ^ 53 \<longrightarrow> s \<le> 2 ^ 53) \<and> solved P n s
     \<and> (\<forall>t. k \<le> t \<and> t < s \<longrightarrow> \<not> solved P n t)"
proof (rule mine_loop.raw_induct
    [where P = "\<lambda>P n k s. k \<le> s \<and> (k \<le> 2 ^ 53 \<longrightarrow> s \<le> 2 ^ 53) \<and> solved P n s
       \<and> (\<forall>t. k \<le> t \<and> t < s \<longrightarrow> \<not> solved P n t)",
     OF _ assms])
  fix lp Q m j r
  assume ih: "\<And>Q m j r. lp Q m j = Some r \<Longrightarrow>
      j \<le> r \<and> (j \<le> 2 ^ 53 \<longrightarrow> r \<le> 2 ^ 53) \<and> solved Q m r
        \<and> (\<forall>t. j \<le> t \<and> t < r \<longrightarrow> \<not> solved Q m t)"
    and body: "(if take 4 (attempt Q m j) = ''0000'' then Some j
      else lp Q m (if j < 2 ^ 53 then j + 1 else j)) = Some r"
  show "j \<le> r \<and> (j \<le> 2 ^ 53 \<longrightarrow> r \<le> 2 ^ 53) \<and> solved Q m r
     \<and> (\<forall>t. j \<le> t \<and> t < r \<longrightarrow> \<not> solved Q m t)"
  proof (cases "solved Q m j")
    case True
    with body have "r = j" by (simp add: solved_def)
    with True show ?thesis by auto
  next
    case False
    show ?thesis
    proof (cases "j < 2 ^ 53")
      case True
      with False body have "lp Q m (j + 1) = Some r" by (simp add: solved_def)
      from ih[OF this] have rec: "j + 1 \<le> r" "j + 1 \<le> 2 ^ 53 \<longrightarrow> r \<le> 2 ^ 53" "solved Q m r"
        "\<forall>t. j + 1 \<le> t \<and> t < r \<longrightarrow> \<not> solved Q m t" by simp_all
      have "\<not> solved Q m t" if "j \<le> t" "t < r" for t
      proof (cases "t = j")
        case True
        with False show ?thesis by simp
      next
        case False
        with that have "j + 1 \<le> t" by simp
        with rec(4) that show ?thesis by simp
      qed
      moreover from True rec(2) have "r \<le> 2 ^ 53" by simp
      ultimately show ?thesis using rec(1,3) by simp
    next
      case stalled: False
      with False body have "lp Q m j = Some r" by (simp add: solved_def)
      from ih[OF this] show ?thesis .
    qed
  qed
qed

lemma mine_loop_complete:
  "k \<le> s \<Longrightarrow> s \<le> 2 ^ 53 \<Longrightarrow> solved P n s \<Longrightarrow> (\<forall>t. k \<le> t \<and> t < s \<longrightarrow> \<not> solved P n t)
     \<Longrightarrow> mine_loop P n k = Some s"
proof (induction "nat (s - k)" arbitrary: k)
  case 0
  then have "k = s" by simp
  with 0 show ?case by (simp add: mine_loop_unfold)
next
  case (Suc d)
  then have lt: "k < s" by linarith
  with Suc.prems have ns: "\<not> solved P n k" by simp
  from lt Suc.prems(2) have below: "k < 2 ^ 53" by simp
  have "mine_loop P n (k + 1) = Some s"
    using Suc.hyps(1)[of "k + 1"] Suc.hyps(2) Suc.prems lt by auto
  with ns below show ?case by (simp add: mine_loop_unfold)
qed

lemma mine_Some_iff:
  "(mine P n = Some s) =
     (1 \<le> s \<and> s \<le> 2 ^ 53 \<and> solved P n s \<and> (\<forall>t. 1 \<le> t \<and> t < s \<longrightarrow> \<not> solved P n t))"
proof
  assume "mine P n = Some s"
  then have "mine_loop P n 1 = Some s" by (simp add: mine_def)
  from mine_loop_sound[OF this]
  show "1 \<le> s \<and> s \<le> 2 ^ 53 \<and> solved P n s \<and> (\<forall>t. 1 \<le> t \<and> t < s \<longrightarrow> \<not> solved P n t)"
    by simp
next
  assume "1 \<le> s \<and> s \<le> 2 ^ 53 \<and> solved P n s \<and> (\<forall>t. 1 \<le> t \<and> t < s \<longrightarrow> \<not> solved P n t)"
  then show "mine P n = Some s"
    unfolding mine_def by (intro mine_loop_complete) simp_all
qed

lemma first_solution:
  assumes "1 \<le> s" "solved P n s"
  shows "\<exists>r. 1 \<le> r \<and> r \<le> s \<and> solved P n r \<and> (\<forall>t. 1 \<le> t \<and> t < r \<longrightarrow> \<not> solved P n t)"
proof -
  define Q where "Q d = solved P n (1 + int d)" for d
  have "Q (nat (s - 1))" using assms by (simp add: Q_def)
  then have least: "Q (Least Q)" and bound: "Least Q \<le> nat (s - 1)"
    by (rule LeastI, rule Least_le)
  let ?r = "1 + int (Least Q)"
  have "\<not> solved P n t" if "1 \<le> t" "t < ?r" for t
  proof
    assume "solved P n t"
    with that have "Q (nat (t - 1))" by (simp add: Q_def)
    then have "Least Q \<le> nat (t - 1)" by (rule Least_le)
    with that show False by linarith
  qed
  with least bound assms(1) show ?thesis
    by (intro exI[of _ ?r]) (auto simp: Q_def)
qed

lemma mine_terminates:
  assumes "1 \<le> s" "s \<le> 2 ^ 53" "solved P n s"
  shows "\<exists>r. mine P n = Some r \<and> r \<le> s"
proof -
  from first_solution[OF assms(1,3)] obtain r where r: "1 \<le> r" "r \<le> s" "solved P n r"
    "\<forall>t. 1 \<le> t \<and> t < r \<longrightarrow> \<not> solved P n t" by blast
  with assms(2) have "mine P n = Some r" unfolding mine_Some_iff by simp
  with r(2) show ?thesis by blast
qed

lemma mine_None_iff: "(mine P n = None) = (\<forall>s. 1 \<le> s \<and> s \<le> 2 ^ 53 \<longrightarrow> \<not> solved P n s)"
proof
  assume none: "mine P n = None"
  show "\<forall>s. 1 \<le> s \<and> s \<le> 2 ^ 53 \<longrightarrow> \<not> solved P n s"
  proof (intro allI impI notI)
    fix s assume "1 \<le> s \<and> s \<le> 2 ^ 53" "solved P n s"
    then obtain r where "mine P n = Some r" using mine_terminates[of s P n] by blast
    with none show False by simp
  qed
next
  assume "\<forall>s. 1 \<le> s \<and> s \<le> 2 ^ 53 \<longrightarrow> \<not> solved P n s"
  then have "mine P n \<noteq> Some s" for s unfolding mine_Some_iff by blast
  then show "mine P n = None" by (cases "mine P n") auto
qed

lemma solved_exact:
  "\<bar>n + s\<bar> \<le> 2 ^ 53 \<Longrightarrow>
     solved P n s = (take 4 (createHash_MD5 P (int_toString (n + s))) = ''0000'')"
  by (simp add: solved_def attempt_def)

section \<open>What one call of \<open>addBlock\<close> does\<close>

lemma addBlock_valid:
  assumes "createVerify_SHA256 P pk (toString P tx) sg = Inr True" and "chain c \<noteq> []"
  shows "addBlock P c tx pk sg now rnd =
     (case mine P rnd of None \<Rightarrow> Diverges
      | Some s \<Rightarrow> Returns (c\<lparr>chain := chain c @ [Block_constructor (hash P (last (chain c))) tx now rnd]\<rparr>))"
  using assms by (simp add: addBlock_def lastBlock_eq Block_constructor_def Let_def split: option.splits)

lemma addBlock_invalid:
  "createVerify_SHA256 P pk (toString P tx) sg = Inr False \<Longrightarrow> addBlock P c tx pk sg now rnd = Returns c"
  by (simp add: addBlock_def)

lemma addBlock_Returns:
  assumes "addBlock P c tx pk sg now rnd = Returns c'"
  shows "c' = c \<or> (chain c \<noteq> [] \<and> createVerify_SHA256 P pk (toString P tx) sg = Inr True \<and>
     (\<exists>s. mine P rnd = Some s) \<and>
     c' = c\<lparr>chain := chain c @ [Block_constructor (hash P (last (chain c))) tx now rnd]\<rparr>)"
  using assms
  by (auto simp: addBlock_def lastBlock_eq Block_constructor_def Let_def
      split: sum.splits if_splits option.splits)

text \<open>What \<open>sendMoney\<close> signs is the string that \<open>addBlock\<close> verifies, under the same wallet's keys.\<close>

lemma sendMoney_addBlock:
  "createSign_SHA256 P (privateKey w) (toString P \<lparr>amount = a, payer = publicKey w, payee = q\<rparr>) = Inr sg
   \<Longrightarrow> sendMoney P w a q c now rnd =
       addBlock P c \<lparr>amount = a, payer = publicKey w, payee = q\<rparr> (publicKey w) sg now rnd"
  by (simp add: sendMoney_def)

section \<open>Invariants of the reachable chains\<close>

lemma linked_snoc:
  assumes "linked P bs" and "bs \<noteq> []" and "prevHash b = hash P (last bs)"
  shows "linked P (bs @ [b])"
  unfolding linked_def
proof
  fix i assume i: "i \<in> {1..<length (bs @ [b])}"
  show "prevHash ((bs @ [b]) ! i) = hash P ((bs @ [b]) ! (i - 1))"
  proof (cases "i < length bs")
    case True
    then have "i - 1 < length bs" by simp
    with True i assms(1) show ?thesis by (simp add: linked_def nth_append)
  next
    case False
    with i have "i = length bs" by simp
    with assms(2,3) show ?thesis by (simp add: nth_append last_conv_nth)
  qed
qed

lemma genesis_ok_snoc: "genesis_ok bs \<Longrightarrow> genesis_ok (bs @ [b])"
  by (auto simp: genesis_ok_def nth_append)

lemma addBlock_preserves:
  assumes "addBlock P c tx pk sg now rnd = Returns c'"
  shows "genesis_ok (chain c) \<Longrightarrow> genesis_ok (chain c')"
    and "linked P (chain c) \<Longrightarrow> linked P (chain c')"
  using addBlock_Returns[OF assms]
  by (auto simp: genesis_ok_snoc linked_snoc Block_constructor_def)

lemma Chain_constructor_ok:
  "genesis_ok (chain (Chain_constructor now rnd))" "linked P (chain (Chain_constructor now rnd))"
  by (simp_all add: Chain_constructor_def Block_constructor_def genesis_ok_def linked_def)

lemma reachable_ok: "reachable P c \<Longrightarrow> genesis_ok (chain c) \<and> linked P (chain c)"
proof (induction rule: reachable.induct)
  case (reachable_init now rnd)
  show ?case by (simp add: Chain_constructor_ok)
next
  case (reachable_addBlock c tx pk sg now rnd c')
  then show ?case using addBlock_preserves by blast
qed

lemma reachable_nonempty: "reachable P c \<Longrightarrow> chain c \<noteq> []"
  using reachable_ok[of P c] by (auto simp: genesis_ok_def)

section \<open>The evaluation provider at work\<close>

lemma demo_verify:
  "createVerify_SHA256 demo_provider ''alice'' (toString demo_provider demo_transaction) demo_signature = Inr True"
  by (simp add: demo_provider_def demo_signature_def)

lemma demo_mine: "mine demo_provider 0 = Some 3"
  by code_simp

lemma demo_solved: "solved demo_provider 0 3"
  by code_simp

lemma demo_unsolved: "\<not> solved demo_provider 0 1" "\<not> solved demo_provider 0 2"
  by code_simp+

lemma demo_chain_reachable: "reachable demo_provider demo_chain"
  unfolding demo_chain_def by (rule reachable_init)

lemma demo_addBlock:
  "addBlock demo_provider demo_chain demo_transaction ''alice'' demo_signature 2000 0 = Returns demo_chain2"
  using addBlock_valid[OF demo_verify, of demo_chain 2000 0] demo_mine
  by (simp add: demo_chain2_def demo_chain_def Chain_constructor_def)

lemma demo_chain2_reachable: "reachable demo_provider demo_chain2"
  using demo_chain_reachable demo_addBlock by (rule reachable_addBlock)

section \<open>Proof of work\<close>

text \<open>
  Claim C4, as the code has it. A seed is an integer of magnitude at most \<open>2^53\<close>, hence a
  double as it stands. \<open>mine\<close> starts its search at \<open>solution = 1\<close> and goes up in steps
  of one as far as \<open>2^53\<close>, where the counter stays. So it returns \<open>s\<close> exactly when \<open>s\<close>
  is between 1 and \<open>2^53\<close>, meets the target, and no candidate from 1 below \<open>s\<close> does; and
  it never returns exactly when no candidate between 1 and \<open>2^53\<close> meets the target. The
  target is met when the MD5 hex digest of the string of \<open>seed + s\<close> starts with \<open>0000\<close>,
  the sum being the exact integer, written in decimal, whenever it stays within \<open>2^53\<close>.
  The result is a function of the seed and of the hash function alone.
\<close>

theorem mine_least_positive:
  assumes "\<bar>seed\<bar> \<le> 2 ^ 53"
  shows "(mine P seed = Some s) =
     (1 \<le> s \<and> s \<le> 2 ^ 53 \<and> solved P seed s \<and> (\<forall>t. 1 \<le> t \<and> t < s \<longrightarrow> \<not> solved P seed t))
   \<and> (mine P seed = None) = (\<forall>r. 1 \<le> r \<and> r \<le> 2 ^ 53 \<longrightarrow> \<not> solved P seed r)
   \<and> (\<bar>seed + s\<bar> \<le> 2 ^ 53 \<longrightarrow>
        solved P seed s = (take 4 (createHash_MD5 P (int_toString (seed + s))) = ''0000''))"
  using mine_Some_iff[of P seed s] mine_None_iff[of P seed] solved_exact[of seed s P] by simp

theorem mine_least_positive_witness:
  "mine demo_provider 0 = Some 3 \<and> mine demo_provider 0 \<noteq> None
   \<and> solved demo_provider 0 3 = (take 4 (createHash_MD5 demo_provider (int_toString 3)) = ''0000'')"
proof -
  have seed: "\<bar>0 :: int\<bar> \<le> 2 ^ 53" by simp
  have "\<not> solved demo_provider 0 t" if "1 \<le> t \<and> t < 3" for t
  proof -
    from that have "t = 1 \<or> t = 2" by auto
    with demo_unsolved show ?thesis by auto
  qed
  with demo_solved have "mine demo_provider 0 = Some 3"
    using mine_least_positive[OF seed, of demo_provider 3] by simp
  moreover from demo_solved have "mine demo_provider 0 \<noteq> None"
    using mine_least_positive[OF seed, of demo_provider 3] by auto
  moreover have "solved demo_provider 0 3 =
      (take 4 (createHash_MD5 demo_provider (int_toString 3)) = ''0000'')"
    using mine_least_positive[OF seed, of demo_provider 3] by simp
  ultimately show ?thesis by simp
qed

text \<open>
  Claim C4 as it is written asks for the smallest non-negative solution, for every seed. On
  the seed 3 the candidate 0 meets the target, and \<open>mine\<close>, which never tries 0, returns 2.
\<close>

theorem mine_skips_zero: "solved demo_provider 3 0 \<and> mine demo_provider 3 = Some 2"
  by code_simp

section \<open>Admission of a block\<close>

text \<open>
  Claim C1, as the code has it. When the signature is valid, \<open>addBlock\<close> builds the new
  block on the hash of the last block and calls \<open>mine\<close> on the block's nonce before it
  pushes the block: if the search never returns, neither does \<open>addBlock\<close>. What \<open>mine\<close>
  returns is dropped; the block is pushed with the nonce its constructor drew.
\<close>

theorem addBlock_discards_solution:
  assumes "createVerify_SHA256 P senderPublicKey (toString P tx) signature = Inr True"
    and "lastBlock c = Some lb"
  shows "addBlock P c tx senderPublicKey signature now rnd =
     (case mine P rnd of
        None \<Rightarrow> Diverges
      | Some solution \<Rightarrow> Returns (c\<lparr>chain := chain c @
          [\<lparr>prevHash = hash P lb, transaction = tx, ts = now, nonce = rnd\<rparr>]\<rparr>))"
  using assms by (simp add: addBlock_def Block_constructor_def Let_def split: option.splits)

theorem addBlock_discards_solution_witness:
  "addBlock demo_provider demo_chain demo_transaction ''alice'' demo_signature 2000 0 =
     Returns (demo_chain\<lparr>chain := chain demo_chain @
       [\<lparr>prevHash = hash demo_provider (last (chain demo_chain)),
         transaction = demo_transaction, ts = 2000, nonce = 0\<rparr>]\<rparr>)"
proof -
  have "lastBlock demo_chain = Some (last (chain demo_chain))"
    by (simp add: lastBlock_eq demo_chain_def Chain_constructor_def)
  from addBlock_discards_solution[OF demo_verify this, of 2000 0] demo_mine
  show ?thesis by simp
qed

text \<open>
  Claim C1 as it is written says the stored nonce is the mining solution. Here the block
  is stored with the nonce 0 it was built with, and mining on that nonce returns 3.
\<close>

theorem addBlock_nonce_is_not_solution:
  "addBlock demo_provider demo_chain demo_transaction ''alice'' demo_signature 2000 0 = Returns demo_chain2
   \<and> nonce (last (chain demo_chain2)) = 0
   \<and> mine demo_provider 0 = Some 3
   \<and> mine demo_provider 0 \<noteq> Some (nonce (last (chain demo_chain2)))"
  using demo_addBlock demo_mine by (simp add: demo_chain2_def Block_constructor_def)

text \<open>
  Claim C10. After a call of \<open>addBlock\<close> that passed the signature check and returned, the
  chain is the old chain followed by the block exactly as its constructor built it: the
  stored nonce is the random value of the construction, the blocks before it are as they
  were, and \<open>mine\<close> returned a solution that is stored nowhere. Nothing thus ties the hash
  of the stored block to the target: there is an admitted block whose hash does not start
  with \<open>0000\<close>.
\<close>

theorem addBlock_nonce_from_constructor:
  "(createVerify_SHA256 P senderPublicKey (toString P tx) signature = Inr True
      \<and> addBlock P c tx senderPublicKey signature now rnd = Returns c' \<longrightarrow>
        chain c' = chain c @ [Block_constructor (hash P (last (chain c))) tx now rnd]
        \<and> nonce (last (chain c')) = rnd
        \<and> (\<exists>solution. mine P rnd = Some solution))
   \<and> (\<exists>P0 c0 tx0 key0 sg0 now0 rnd0 c1.
        createVerify_SHA256 P0 key0 (toString P0 tx0) sg0 = Inr True
        \<and> addBlock P0 c0 tx0 key0 sg0 now0 rnd0 = Returns c1
        \<and> take 4 (hash P0 (last (chain c1))) \<noteq> ''0000'')"
proof (intro conjI impI)
  assume a: "createVerify_SHA256 P senderPublicKey (toString P tx) signature = Inr True
      \<and> addBlock P c tx senderPublicKey signature now rnd = Returns c'"
  then have "chain c \<noteq> []"
    by (auto simp: addBlock_def lastBlock_eq split: if_splits)
  from addBlock_valid[OF conjunct1[OF a] this, of now rnd] a
  have m: "\<exists>solution. mine P rnd = Some solution"
    and c': "c' = c\<lparr>chain := chain c @ [Block_constructor (hash P (last (chain c))) tx now rnd]\<rparr>"
    by (auto split: option.splits)
  from c' show "chain c' = chain c @ [Block_constructor (hash P (last (chain c))) tx now rnd]"
    by simp
  from c' show "nonce (last (chain c')) = rnd" by (simp add: Block_constructor_def)
  from m show "\<exists>solution. mine P rnd = Some solution" .
next
  have "take 4 (hash demo_provider (last (chain demo_chain2))) \<noteq> ''0000''"
    by code_simp
  with demo_verify demo_addBlock
  show "\<exists>P0 c0 tx0 key0 sg0 now0 rnd0 c1.
        createVerify_SHA256 P0 key0 (toString P0 tx0) sg0 = Inr True
        \<and> addBlock P0 c0 tx0 key0 sg0 now0 rnd0 = Returns c1
        \<and> take 4 (hash P0 (last (chain c1))) \<noteq> ''0000''"
    by blast
qed

theorem addBlock_nonce_from_constructor_witness:
  "chain demo_chain2 = chain demo_chain @
      [Block_constructor (hash demo_provider (last (chain demo_chain))) demo_transaction 2000 0]
   \<and> nonce (last (chain demo_chain2)) = 0
   \<and> (\<exists>solution. mine demo_provider 0 = Some solution)"
  using addBlock_nonce_from_constructor
    [of demo_provider "''alice''" demo_transaction demo_signature demo_chain 2000 0 demo_chain2]
    demo_verify demo_addBlock
  by (simp add: Block_constructor_def)

text \<open>
  Claim C3, as the code has it. A call of \<open>addBlock\<close> on a chain the class has produced
  has three outcomes, by what verification does. When it returns false, \<open>addBlock\<close>
  returns and leaves the chain as it was. When it returns true and the proof of work has a
  solution for the nonce drawn (without one the call does not return at all), \<open>addBlock\<close>
  returns a chain one block longer whose earlier blocks are unchanged. When verification
  itself throws, \<open>addBlock\<close> throws the same exception: nothing in it catches one.
\<close>

theorem addBlock_appends_or_ignores:
  assumes "reachable P c"
  shows "(createVerify_SHA256 P senderPublicKey (toString P tx) signature = Inl e \<longrightarrow>
            addBlock P c tx senderPublicKey signature now rnd = Throws e)
     \<and> (createVerify_SHA256 P senderPublicKey (toString P tx) signature = Inr False \<longrightarrow>
            addBlock P c tx senderPublicKey signature now rnd = Returns c)
     \<and> (createVerify_SHA256 P senderPublicKey (toString P tx) signature = Inr True
          \<and> (\<exists>s. 1 \<le> s \<and> s \<le> 2 ^ 53 \<and> solved P rnd s) \<longrightarrow>
            (\<exists>c'. addBlock P c tx senderPublicKey signature now rnd = Returns c'
               \<and> length (chain c') = length (chain c) + 1
               \<and> take (length (chain c)) (chain c') = chain c))"
proof (intro conjI impI)
  assume "createVerify_SHA256 P senderPublicKey (toString P tx) signature = Inl e"
  then show "addBlock P c tx senderPublicKey signature now rnd = Throws e"
    by (simp add: addBlock_def)
next
  assume "createVerify_SHA256 P senderPublicKey (toString P tx) signature = Inr False"
  then show "addBlock P c tx senderPublicKey signature now rnd = Returns c"
    by (rule addBlock_invalid)
next
  assume a: "createVerify_SHA256 P senderPublicKey (toString P tx) signature = Inr True
          \<and> (\<exists>s. 1 \<le> s \<and> s \<le> 2 ^ 53 \<and> solved P rnd s)"
  then obtain r where "mine P rnd = Some r" using mine_terminates by blast
  with addBlock_valid[OF conjunct1[OF a] reachable_nonempty[OF assms], of now rnd]
  show "\<exists>c'. addBlock P c tx senderPublicKey signature now rnd = Returns c'
               \<and> length (chain c') = length (chain c) + 1
               \<and> take (length (chain c)) (chain c') = chain c"
    by simp
qed

theorem addBlock_appends_or_ignores_witness:
  "addBlock demo_provider demo_chain demo_transaction [] demo_signature 2000 0 = Throws ProviderError
   \<and> addBlock demo_provider demo_chain demo_transaction ''alice'' ''forged'' 2000 0 = Returns demo_chain
   \<and> (\<exists>c'. addBlock demo_provider demo_chain demo_transaction ''alice'' demo_signature 2000 0 = Returns c'
         \<and> length (chain c') = length (chain demo_chain) + 1
         \<and> take (length (chain demo_chain)) (chain c') = chain demo_chain)"
proof -
  have thrown: "createVerify_SHA256 demo_provider [] (toString demo_provider demo_transaction)
      demo_signature = Inl ProviderError"
    by (simp add: demo_provider_def)
  have bad: "createVerify_SHA256 demo_provider ''alice'' (toString demo_provider demo_transaction)
      ''forged'' = Inr False"
    by code_simp
  have "\<exists>s. 1 \<le> s \<and> s \<le> 2 ^ 53 \<and> solved demo_provider 0 s"
    using demo_solved by (intro exI[of _ 3]) simp
  with demo_verify bad thrown
    addBlock_appends_or_ignores[OF demo_chain_reachable,
      of "[]" demo_transaction demo_signature ProviderError 2000 0]
    addBlock_appends_or_ignores[OF demo_chain_reachable,
      of "''alice''" demo_transaction "''forged''" _ 2000 0]
    addBlock_appends_or_ignores[OF demo_chain_reachable,
      of "''alice''" demo_transaction demo_signature _ 2000 0]
  show ?thesis by simp
qed

text \<open>
  Claim C3 as it is written says that no call raises an exception. On the constructor's
  chain, a call with a key the provider cannot use does not get as far as a verdict: the
  verification throws, and so does \<open>addBlock\<close>.
\<close>

theorem addBlock_unusable_key_throws:
  "createVerify_SHA256 demo_provider [] (toString demo_provider demo_transaction) demo_signature
     = Inl ProviderError
   \<and> addBlock demo_provider (Chain_constructor 1000 7) demo_transaction [] demo_signature 2000 0
     = Throws ProviderError"
  by (simp add: addBlock_def demo_provider_def)

text \<open>
  Claim C9. \<open>addBlock\<close> never compares \<open>senderPublicKey\<close> with the payer of the
  transaction: when the signature verifies under a key that is not the payer's, the block
  carrying the transaction is appended all the same.
\<close>

theorem addBlock_ignores_payer:
  assumes "createVerify_SHA256 P senderPublicKey (toString P tx) signature = Inr True"
    and "senderPublicKey \<noteq> payer tx"
    and "reachable P c"
    and "mine P rnd = Some solution"
  shows "\<exists>c'. addBlock P c tx senderPublicKey signature now rnd = Returns c'
     \<and> length (chain c') = length (chain c) + 1
     \<and> transaction (last (chain c')) = tx
     \<and> payer (transaction (last (chain c'))) \<noteq> senderPublicKey"
  using addBlock_valid[OF assms(1) reachable_nonempty[OF assms(3)], of now rnd] assms(2,4)
  by (auto simp: Block_constructor_def)

theorem addBlock_ignores_payer_witness:
  "\<exists>c'. addBlock demo_provider demo_chain demo_transaction ''mallory''
          (''mallory:'' @ toString demo_provider demo_transaction) 2000 0 = Returns c'
     \<and> length (chain c') = length (chain demo_chain) + 1
     \<and> transaction (last (chain c')) = demo_transaction
     \<and> payer (transaction (last (chain c'))) \<noteq> ''mallory''"
proof -
  have v: "createVerify_SHA256 demo_provider ''mallory'' (toString demo_provider demo_transaction)
      (''mallory:'' @ toString demo_provider demo_transaction) = Inr True"
    by (simp add: demo_provider_def)
  have p: "''mallory'' \<noteq> payer demo_transaction" by (simp add: demo_transaction_def)
  from addBlock_ignores_payer[OF v p demo_chain_reachable demo_mine, of 2000]
  show ?thesis .
qed

section \<open>Invariants of the ledger\<close>

text \<open>
  Claim C2. In every reachable chain each block after the first stores as \<open>prevHash\<close> the
  hash of the block before it, the hash being that of the block as stored, and every
  returning call of \<open>addBlock\<close> leaves a chain with the same property.
\<close>

theorem chain_linkage:
  assumes "reachable P c"
  shows "(\<forall>i. 0 < i \<and> i < length (chain c) \<longrightarrow> prevHash (chain c ! i) = hash P (chain c ! (i - 1)))
     \<and> (\<forall>tx senderPublicKey signature now rnd c'.
          addBlock P c tx senderPublicKey signature now rnd = Returns c' \<longrightarrow>
          (\<forall>i. 0 < i \<and> i < length (chain c') \<longrightarrow>
             prevHash (chain c' ! i) = hash P (chain c' ! (i - 1))))"
proof -
  have *: "\<forall>i. 0 < i \<and> i < length (chain d) \<longrightarrow> prevHash (chain d ! i) = hash P (chain d ! (i - 1))"
    if "reachable P d" for d
    using reachable_ok[OF that] by (auto simp: linked_def)
  show ?thesis
    using *[OF assms] * reachable_addBlock[OF assms] by blast
qed

theorem chain_linkage_witness:
  "prevHash (chain demo_chain2 ! 1) = hash demo_provider (chain demo_chain2 ! 0)"
proof -
  have "(0::nat) < 1 \<and> 1 < length (chain demo_chain2)"
    by (simp add: demo_chain2_def demo_chain_def Chain_constructor_def)
  with chain_linkage[OF demo_chain2_reachable] show ?thesis by fastforce
qed

text \<open>
  Claim C6. The constructor's chain has at least one block and its first block has the
  empty \<open>prevHash\<close>; so has every reachable chain, and so has the chain after any
  returning call of \<open>addBlock\<close> on it.
\<close>

theorem genesis_invariant:
  "(1 \<le> length (chain (Chain_constructor now0 rnd0))
      \<and> prevHash (chain (Chain_constructor now0 rnd0) ! 0) = [])
   \<and> (reachable P c \<longrightarrow> 1 \<le> length (chain c) \<and> prevHash (chain c ! 0) = []
        \<and> (\<forall>tx senderPublicKey signature now rnd c'.
             addBlock P c tx senderPublicKey signature now rnd = Returns c' \<longrightarrow>
             1 \<le> length (chain c') \<and> prevHash (chain c' ! 0) = []))"
proof -
  have *: "1 \<le> length (chain d) \<and> prevHash (chain d ! 0) = []" if "reachable P d" for d
    using reachable_ok[OF that] by (simp add: genesis_ok_def)
  have "1 \<le> length (chain (Chain_constructor now0 rnd0))
      \<and> prevHash (chain (Chain_constructor now0 rnd0) ! 0) = []"
    using Chain_constructor_ok(1)[of now0 rnd0] by (simp add: genesis_ok_def)
  moreover have "1 \<le> length (chain c) \<and> prevHash (chain c ! 0) = []
        \<and> (\<forall>tx senderPublicKey signature now rnd c'.
             addBlock P c tx senderPublicKey signature now rnd = Returns c' \<longrightarrow>
             1 \<le> length (chain c') \<and> prevHash (chain c' ! 0) = [])" if r: "reachable P c"
    using *[OF r] * reachable_addBlock[OF r] by blast
  ultimately show ?thesis by blast
qed

theorem genesis_invariant_witness:
  "length (chain demo_chain2) = 2 \<and> prevHash (chain demo_chain2 ! 0) = []"
proof -
  have "length (chain demo_chain2) = 2"
    by (simp add: demo_chain2_def demo_chain_def Chain_constructor_def)
  with genesis_invariant[of _ _ demo_provider demo_chain2] demo_chain2_reachable
  show ?thesis by simp
qed

text \<open>
  Claim C8. \<open>lastBlock\<close> yields nothing exactly when the chain is empty. On a chain with at
  least one block, and so on every reachable chain, it returns the final block.
\<close>

theorem lastBlock_returns_last:
  "(lastBlock c = None) = (chain c = [])
   \<and> (1 \<le> length (chain c) \<longrightarrow> lastBlock c = Some (last (chain c)))
   \<and> (reachable P c \<longrightarrow> lastBlock c = Some (last (chain c)))"
  using reachable_nonempty[of P c] by (auto simp: lastBlock_eq Suc_le_eq)

theorem lastBlock_returns_last_witness:
  "lastBlock demo_chain2 =
     Some (Block_constructor (hash demo_provider (last (chain demo_chain))) demo_transaction 2000 0)"
proof -
  have "1 \<le> length (chain demo_chain2)" by (simp add: demo_chain2_def)
  with lastBlock_returns_last[of demo_chain2 demo_provider] demo_chain2_reachable
  show ?thesis by (simp add: demo_chain2_def)
qed

section \<open>Hashing and signing\<close>




text \<open>
  Claim C5, on the code: the claim fails where the encoding loses the amount. A transaction
  signed by a wallet with the amount \<open>NaN\<close> and then given the amount \<open>Infinity\<close> is a changed
  transaction with the same encoding, and the old signature still verifies; a change of the
  amount from \<open>0\<close> to \<open>-0\<close> leaves the encoding unchanged in the same way.
\<close>

theorem nonfinite_amount_keeps_signature:
  "createSign_SHA256 demo_provider (privateKey demo_wallet) (toString demo_provider demo_nan_transaction)
      = Inr demo_nan_signature
   \<and> amount (demo_nan_transaction\<lparr>amount := Infinity\<rparr>) \<noteq> amount demo_nan_transaction
   \<and> toString demo_provider (demo_nan_transaction\<lparr>amount := Infinity\<rparr>)
        = toString demo_provider demo_nan_transaction
   \<and> createVerify_SHA256 demo_provider (publicKey demo_wallet)
        (toString demo_provider (demo_nan_transaction\<lparr>amount := Infinity\<rparr>)) demo_nan_signature = Inr True
   \<and> toString demo_provider (demo_transaction\<lparr>amount := NegZero\<rparr>)
        = toString demo_provider (demo_transaction\<lparr>amount := Finite 0\<rparr>)"
  by (simp add: demo_provider_def demo_wallet_def demo_nan_signature_def demo_nan_transaction_def
      toString_def JSON_number_lossy)

end
